theory Spec2Isabelle
  imports Complex_Main "HOL-Library.Sublist" "HOL-Library.AList"
begin

section \<open>Python values handled by \<^verbatim>\<open>arachgraph.py\<close>\<close>

text \<open>
  \<^verbatim>\<open>json.load\<close> hands the program a Python object built from \<^verbatim>\<open>None\<close>, booleans,
  integers (unbounded), floats, strings, lists and dicts with string keys. \<open>JObj d\<close> is
  a dict whose items, in insertion order, are \<open>d\<close>; a dict read by \<^verbatim>\<open>json.load\<close> never
  repeats a key. A finite float is the rational it denotes (Python compares an integer
  and a float by value); the non-standard constants \<^verbatim>\<open>NaN\<close> and \<^verbatim>\<open>Infinity\<close> are not
  represented. A \<open>string\<close> is the UTF-8 text of the Python string.
\<close>

datatype json =
    JNull
  | JBool bool
  | JInt int
  | JFloat rat
  | JStr string
  | JList "json list"
  | JObj "(string \<times> json) list"

text \<open>
  Dictionary keys and set elements are compared by hash and \<^verbatim>\<open>==\<close>. For the hashable
  values above this identifies \<^verbatim>\<open>True\<close>, \<^verbatim>\<open>1\<close> and \<^verbatim>\<open>1.0\<close>; lists and dicts are
  unhashable.
\<close>

datatype pykey = KNone | KNum rat | KStr string

fun to_key :: "json \<Rightarrow> pykey option" where
  "to_key JNull = Some KNone"
| "to_key (JBool b) = Some (KNum (if b then 1 else 0))"
| "to_key (JInt i) = Some (KNum (of_int i))"
| "to_key (JFloat r) = Some (KNum r)"
| "to_key (JStr s) = Some (KStr s)"
| "to_key (JList xs) = None"
| "to_key (JObj d) = None"

text \<open>
  Exceptions that the program's expressions can raise and that none of its \<^verbatim>\<open>except\<close>
  clauses catches. \<open>Toolkit_error\<close> stands for whatever a widget constructor or a
  plotting call raises when it rejects its arguments.
\<close>

datatype py_exc = TypeError | KeyError | IndexError | AttributeError | Toolkit_error

text \<open>\<^verbatim>\<open>k in x\<close> for a string \<open>k\<close>: key membership in a dict, substring test on a string,
  element membership in a list, \<^verbatim>\<open>TypeError\<close> on anything else.\<close>

fun py_in :: "string \<Rightarrow> json \<Rightarrow> py_exc + bool" where
  "py_in k (JObj d) = Inr (k \<in> fst ` set d)"
| "py_in k (JStr s) = Inr (sublist k s)"
| "py_in k (JList xs) = Inr (JStr k \<in> set xs)"
| "py_in k JNull = Inl TypeError"
| "py_in k (JBool b) = Inl TypeError"
| "py_in k (JInt i) = Inl TypeError"
| "py_in k (JFloat r) = Inl TypeError"

text \<open>\<^verbatim>\<open>for item in x\<close>: the elements of a list, the keys of a dict, the characters of a
  string (each a one-character string), \<^verbatim>\<open>TypeError\<close> on anything else.\<close>

fun py_iter :: "json \<Rightarrow> py_exc + json list" where
  "py_iter (JList xs) = Inr xs"
| "py_iter (JObj d) = Inr (map (\<lambda>(k, v). JStr k) d)"
| "py_iter (JStr s) = Inr (map (\<lambda>c. JStr [c]) s)"
| "py_iter JNull = Inl TypeError"
| "py_iter (JBool b) = Inl TypeError"
| "py_iter (JInt i) = Inl TypeError"
| "py_iter (JFloat r) = Inl TypeError"

text \<open>Truth value, as \<^verbatim>\<open>not self.factors\<close> tests it.\<close>

fun py_truthy :: "json \<Rightarrow> bool" where
  "py_truthy JNull = False"
| "py_truthy (JBool b) = b"
| "py_truthy (JInt i) = (i \<noteq> 0)"
| "py_truthy (JFloat r) = (r \<noteq> 0)"
| "py_truthy (JStr s) = (s \<noteq> [])"
| "py_truthy (JList xs) = (xs \<noteq> [])"
| "py_truthy (JObj d) = (d \<noteq> [])"

text \<open>\<^verbatim>\<open>x[k]\<close>: lookup in a dict (\<^verbatim>\<open>KeyError\<close> when absent, \<^verbatim>\<open>TypeError\<close> for an
  unhashable key), indexing a list or string by an integer (negative indices count from
  the end), \<^verbatim>\<open>TypeError\<close> on anything else.\<close>

definition py_at :: "'a list \<Rightarrow> int \<Rightarrow> py_exc + 'a" where
  "py_at xs i =
     (if 0 \<le> i \<and> i < int (length xs) then Inr (xs ! nat i)
      else if i < 0 \<and> - int (length xs) \<le> i then Inr (xs ! nat (int (length xs) + i))
      else Inl IndexError)"

fun py_subscript :: "json \<Rightarrow> json \<Rightarrow> py_exc + json" where
  "py_subscript (JObj d) k =
     (case to_key k of
        None \<Rightarrow> Inl TypeError
      | Some (KStr n) \<Rightarrow> (case map_of d n of None \<Rightarrow> Inl KeyError | Some v \<Rightarrow> Inr v)
      | Some _ \<Rightarrow> Inl KeyError)"
| "py_subscript (JList xs) (JInt i) = py_at xs i"
| "py_subscript (JList xs) (JBool b) = py_at xs (if b then 1 else 0)"
| "py_subscript (JList xs) _ = Inl TypeError"
| "py_subscript (JStr s) (JInt i) = map_sum id (\<lambda>c. JStr [c]) (py_at s i)"
| "py_subscript (JStr s) (JBool b) = map_sum id (\<lambda>c. JStr [c]) (py_at s (if b then 1 else 0))"
| "py_subscript (JStr s) _ = Inl TypeError"
| "py_subscript _ _ = Inl TypeError"

text \<open>\<^verbatim>\<open>x.keys()\<close>: only a dict has the method.\<close>

fun py_keys :: "json \<Rightarrow> py_exc + string list" where
  "py_keys (JObj d) = Inr (map fst d)"
| "py_keys _ = Inl AttributeError"

section \<open>Application state\<close>

text \<open>
  \<^verbatim>\<open>self.samples\<close> maps a sample name to \<^verbatim>\<open>{"values": [...], "color": ...}\<close>; the dict
  keeps insertion order, and \<^verbatim>\<open>len(self.samples)\<close> picks the next default colour. The
  entry's \<^verbatim>\<open>ui_color_btn\<close> is a widget handle and is left out.
  \<^verbatim>\<open>self.factor_controls\<close> maps a factor name to its slider; the model keeps the
  slider's current value. The two buttons that \<^verbatim>\<open>init_ui\<close> creates disabled carry
  their enabled flag.
\<close>

record sample =
  sample_values :: "json list"
  sample_color :: json

record app =
  factors :: json
  samples :: "(pykey \<times> sample) list"
  factor_controls :: "(pykey \<times> int) list"
  btn_add_sample :: bool
  btn_save_sample :: bool

definition init_app :: app where
  "init_app = \<lparr>factors = JList [], samples = [], factor_controls = [],
                btn_add_sample = False, btn_save_sample = False\<rparr>"

text \<open>
  The libraries the program calls are parameters of the model. Each predicate says
  whether a group of calls returns without raising:
  \<^item> \<open>factor_widgets name description\<close>: \<^verbatim>\<open>QGroupBox(name)\<close>, \<^verbatim>\<open>QLabel(description)\<close> and
    the slider set-up of one pass of \<^verbatim>\<open>_setup_ui_for_factors\<close>;
  \<^item> \<open>sample_row name color\<close>: \<^verbatim>\<open>ColorButton(color)\<close> and \<^verbatim>\<open>QLabel(name)\<close> of
    \<^verbatim>\<open>_add_sample_to_list_ui\<close>;
  \<^item> \<open>draws factors samples\<close>: the matplotlib calls of \<^verbatim>\<open>_update_chart\<close>.
  \<open>key_text\<close> is the text \<^verbatim>\<open>json.dump\<close> writes for a dict key that is not a string.
\<close>

record libs =
  factor_widgets :: "json \<Rightarrow> json \<Rightarrow> bool"
  sample_row :: "json \<Rightarrow> json \<Rightarrow> bool"
  draws :: "json \<Rightarrow> (pykey \<times> sample) list \<Rightarrow> bool"
  key_text :: "pykey \<Rightarrow> string"

text \<open>
  What a slot did: ran to its end (\<open>Done\<close>), returned early without a message
  (\<open>Cancelled\<close>), showed a message box and returned (\<open>Shown\<close>), or let an exception
  escape (\<open>Raised\<close>). \<open>Ignored\<close> is a click on a disabled button.
\<close>

datatype message = Factor_load_failed | Sample_load_failed | Duplicate_name | No_factors

datatype outcome = Done | Cancelled | Shown message | Raised py_exc | Ignored

text \<open>
  The file dialog and \<^verbatim>\<open>json.load\<close>: no path chosen; \<^verbatim>\<open>open\<close> or the parser raised
  (\<^verbatim>\<open>IOError\<close>, \<^verbatim>\<open>JSONDecodeError\<close>, both caught); or a parsed document.
\<close>

datatype file_read = No_file | Unreadable | Parsed json

section \<open>Loading factors\<close>

text \<open>\<^verbatim>\<open>all("name" in item and "description" in item for item in loaded_factors)\<close>,
  stopping at the first item that fails and at the first exception.\<close>

fun all_have_fields :: "json list \<Rightarrow> py_exc + bool" where
  "all_have_fields [] = Inr True"
| "all_have_fields (item # rest) =
     (case py_in ''name'' item of
        Inl e \<Rightarrow> Inl e
      | Inr False \<Rightarrow> Inr False
      | Inr True \<Rightarrow>
          (case py_in ''description'' item of
             Inl e \<Rightarrow> Inl e
           | Inr False \<Rightarrow> Inr False
           | Inr True \<Rightarrow> all_have_fields rest))"

definition clear_all :: "app \<Rightarrow> app" where
  "clear_all s = s\<lparr>factors := JList [], samples := [], factor_controls := [],
                    btn_save_sample := False, btn_add_sample := False\<rparr>"

text \<open>The loop of \<^verbatim>\<open>_setup_ui_for_factors\<close>; a new slider shows 5.\<close>

fun setup_factor_widgets :: "libs \<Rightarrow> json list \<Rightarrow> app \<Rightarrow> py_exc option \<times> app" where
  "setup_factor_widgets tk [] s = (None, s)"
| "setup_factor_widgets tk (factor # rest) s =
     (case py_subscript factor (JStr ''name'') of
        Inl e \<Rightarrow> (Some e, s)
      | Inr name \<Rightarrow>
     (case py_subscript factor (JStr ''description'') of
        Inl e \<Rightarrow> (Some e, s)
      | Inr description \<Rightarrow>
     if \<not> factor_widgets tk name description then (Some Toolkit_error, s)
     else
     (case to_key name of
        None \<Rightarrow> (Some TypeError, s)
      | Some k \<Rightarrow>
          setup_factor_widgets tk rest
            (s\<lparr>factor_controls := AList.update k 5 (factor_controls s)\<rparr>))))"

definition setup_ui_for_factors :: "libs \<Rightarrow> app \<Rightarrow> py_exc option \<times> app" where
  "setup_ui_for_factors tk s =
     (case py_iter (factors s) of
        Inl e \<Rightarrow> (Some e, s)
      | Inr items \<Rightarrow> setup_factor_widgets tk items s)"

definition update_chart :: "libs \<Rightarrow> app \<Rightarrow> bool" where
  "update_chart tk s = draws tk (factors s) (samples s)"

definition load_factors :: "libs \<Rightarrow> file_read \<Rightarrow> app \<Rightarrow> outcome \<times> app" where
  "load_factors tk file s =
     (case file of
        No_file \<Rightarrow> (Cancelled, s)
      | Unreadable \<Rightarrow> (Shown Factor_load_failed, s)
      | Parsed loaded_factors \<Rightarrow>
          (case py_iter loaded_factors of
             Inl e \<Rightarrow> (Raised e, s)
           | Inr items \<Rightarrow>
               (case all_have_fields items of
                  Inl e \<Rightarrow> (Raised e, s)
                | Inr False \<Rightarrow> (Shown Factor_load_failed, s)
                | Inr True \<Rightarrow>
                    (let s1 = (clear_all s)\<lparr>factors := loaded_factors\<rparr> in
                     case setup_ui_for_factors tk s1 of
                       (Some e, s2) \<Rightarrow> (Raised e, s2)
                     | (None, s2) \<Rightarrow>
                         if \<not> update_chart tk s2 then (Raised Toolkit_error, s2)
                         else (Done, s2\<lparr>btn_add_sample := True\<rparr>)))))"

section \<open>Adding a sample from the sliders\<close>

text \<open>\<^verbatim>\<open>[self.factor_controls[f['name']]['slider'].value() for f in self.factors]\<close>\<close>

fun slider_values :: "(pykey \<times> int) list \<Rightarrow> json list \<Rightarrow> py_exc + int list" where
  "slider_values controls [] = Inr []"
| "slider_values controls (f # rest) =
     (case py_subscript f (JStr ''name'') of
        Inl e \<Rightarrow> Inl e
      | Inr name \<Rightarrow>
     (case to_key name of
        None \<Rightarrow> Inl TypeError
      | Some k \<Rightarrow>
     (case map_of controls k of
        None \<Rightarrow> Inl KeyError
      | Some v \<Rightarrow>
     (case slider_values controls rest of
        Inl e \<Rightarrow> Inl e
      | Inr vs \<Rightarrow> Inr (v # vs)))))"

definition default_colors :: "string list" where
  "default_colors =
     [''#34a853'', ''#4285f4'', ''#fbbc05'', ''#ea4335'', ''#9c27b0'', ''#00bcd4'']"

definition add_sample_to_list_ui :: "libs \<Rightarrow> json \<Rightarrow> json \<Rightarrow> bool" where
  "add_sample_to_list_ui tk name color_hex = sample_row tk name color_hex"

text \<open>\<open>ok\<close> and \<open>name\<close> are what \<^verbatim>\<open>QInputDialog.getText\<close> returned.\<close>

definition add_sample :: "libs \<Rightarrow> bool \<Rightarrow> string \<Rightarrow> app \<Rightarrow> outcome \<times> app" where
  "add_sample tk ok name s =
     (if \<not> (ok \<and> name \<noteq> []) then (Cancelled, s)
      else if KStr name \<in> fst ` set (samples s) then (Shown Duplicate_name, s)
      else
        (case py_iter (factors s) of
           Inl e \<Rightarrow> (Raised e, s)
         | Inr fs \<Rightarrow>
        (case slider_values (factor_controls s) fs of
           Inl e \<Rightarrow> (Raised e, s)
         | Inr vals \<Rightarrow>
             (let color = default_colors ! (length (samples s) mod length default_colors);
                  s1 = s\<lparr>samples := AList.update (KStr name)
                          \<lparr>sample_values = map JInt vals, sample_color = JStr color\<rparr>
                          (samples s)\<rparr>
              in if \<not> add_sample_to_list_ui tk (JStr name) (JStr color)
                 then (Raised Toolkit_error, s1)
                 else if \<not> update_chart tk s1 then (Raised Toolkit_error, s1)
                 else (Done, s1\<lparr>btn_save_sample := True\<rparr>)))))"

section \<open>Saving a sample\<close>

text \<open>\<^verbatim>\<open>{self.factors[i]['name']: val for i, val in enumerate(sample_data['values'])}\<close>:
  a later value replaces an earlier one stored under an equal key.\<close>

fun values_by_name ::
  "json \<Rightarrow> nat \<Rightarrow> json list \<Rightarrow> (pykey \<times> json) list \<Rightarrow> py_exc + (pykey \<times> json) list" where
  "values_by_name fs i [] acc = Inr acc"
| "values_by_name fs i (val # rest) acc =
     (case py_subscript fs (JInt (int i)) of
        Inl e \<Rightarrow> Inl e
      | Inr f \<Rightarrow>
     (case py_subscript f (JStr ''name'') of
        Inl e \<Rightarrow> Inl e
      | Inr name \<Rightarrow>
     (case to_key name of
        None \<Rightarrow> Inl TypeError
      | Some k \<Rightarrow> values_by_name fs (Suc i) rest (AList.update k val acc))))"

text \<open>
  \<^verbatim>\<open>json.dump\<close> followed by \<^verbatim>\<open>json.load\<close> on a dict: a string key is kept, any other
  key is written as text, and of two members with the same text the reader keeps the
  position of the first and the value of the last.
\<close>

definition dumped_key :: "libs \<Rightarrow> pykey \<Rightarrow> string" where
  "dumped_key tk k = (case k of KStr n \<Rightarrow> n | _ \<Rightarrow> key_text tk k)"

definition reread :: "libs \<Rightarrow> (pykey \<times> json) list \<Rightarrow> (string \<times> json) list" where
  "reread tk d = foldl (\<lambda>acc (k, v). AList.update (dumped_key tk k) v acc) [] d"

text \<open>
  \<open>ok\<close> and \<open>sample_to_save\<close> are what \<^verbatim>\<open>QInputDialog.getItem\<close> returned; the dialog
  takes a list of strings. The result is \<^verbatim>\<open>output_data\<close> as a later \<^verbatim>\<open>json.load\<close> of
  the written file gives it back, or nothing when the slot returned early.
\<close>

fun is_name :: "pykey \<Rightarrow> bool" where
  "is_name (KStr n) = True"
| "is_name _ = False"

definition save_sample :: "libs \<Rightarrow> bool \<Rightarrow> string \<Rightarrow> app \<Rightarrow> py_exc + json option" where
  "save_sample tk ok sample_to_save s =
     (if samples s = [] then Inr None
      else if \<not> list_all is_name (map fst (samples s)) then Inl Toolkit_error
      else if \<not> (ok \<and> sample_to_save \<noteq> []) then Inr None
      else
        (case map_of (samples s) (KStr sample_to_save) of
           None \<Rightarrow> Inl KeyError
         | Some sample_data \<Rightarrow>
        (case values_by_name (factors s) 0 (sample_values sample_data) [] of
           Inl e \<Rightarrow> Inl e
         | Inr vals \<Rightarrow>
             Inr (Some (JObj [(''name'', JStr sample_to_save),
                              (''color'', sample_color sample_data),
                              (''values'', JObj (reread tk vals))])))))"

section \<open>Loading a sample\<close>

text \<open>\<^verbatim>\<open>all(k in data for k in [...])\<close>\<close>

fun all_in :: "string list \<Rightarrow> json \<Rightarrow> py_exc + bool" where
  "all_in [] data = Inr True"
| "all_in (k # ks) data =
     (case py_in k data of
        Inl e \<Rightarrow> Inl e
      | Inr False \<Rightarrow> Inr False
      | Inr True \<Rightarrow> all_in ks data)"

text \<open>\<^verbatim>\<open>{f['name'] for f in self.factors}\<close>, as the list of its elements.\<close>

fun factor_names :: "json list \<Rightarrow> py_exc + pykey list" where
  "factor_names [] = Inr []"
| "factor_names (f # rest) =
     (case py_subscript f (JStr ''name'') of
        Inl e \<Rightarrow> Inl e
      | Inr name \<Rightarrow>
     (case to_key name of
        None \<Rightarrow> Inl TypeError
      | Some k \<Rightarrow>
     (case factor_names rest of
        Inl e \<Rightarrow> Inl e
      | Inr ks \<Rightarrow> Inr (k # ks))))"

text \<open>The two checks inside the \<^verbatim>\<open>try\<close> block of \<^verbatim>\<open>load_sample\<close>: \<open>Inr False\<close> when one
  of them raises the \<^verbatim>\<open>ValueError\<close> that the \<^verbatim>\<open>except\<close> clause catches.\<close>

definition sample_file_ok :: "json \<Rightarrow> json \<Rightarrow> py_exc + bool" where
  "sample_file_ok fs data =
     (case all_in [''name'', ''values'', ''color''] data of
        Inl e \<Rightarrow> Inl e
      | Inr False \<Rightarrow> Inr False
      | Inr True \<Rightarrow>
     (case py_subscript data (JStr ''values'') of
        Inl e \<Rightarrow> Inl e
      | Inr vals \<Rightarrow>
     (case py_keys vals of
        Inl e \<Rightarrow> Inl e
      | Inr keys \<Rightarrow>
     (case py_iter fs of
        Inl e \<Rightarrow> Inl e
      | Inr items \<Rightarrow>
     (case factor_names items of
        Inl e \<Rightarrow> Inl e
      | Inr names \<Rightarrow> Inr (KStr ` set keys = set names))))))"

text \<open>\<^verbatim>\<open>[data['values'][f['name']] for f in self.factors]\<close>\<close>

fun ordered_values :: "json \<Rightarrow> json list \<Rightarrow> py_exc + json list" where
  "ordered_values data [] = Inr []"
| "ordered_values data (f # rest) =
     (case py_subscript data (JStr ''values'') of
        Inl e \<Rightarrow> Inl e
      | Inr vals \<Rightarrow>
     (case py_subscript f (JStr ''name'') of
        Inl e \<Rightarrow> Inl e
      | Inr name \<Rightarrow>
     (case py_subscript vals name of
        Inl e \<Rightarrow> Inl e
      | Inr v \<Rightarrow>
     (case ordered_values data rest of
        Inl e \<Rightarrow> Inl e
      | Inr vs \<Rightarrow> Inr (v # vs)))))"

definition load_sample :: "libs \<Rightarrow> file_read \<Rightarrow> app \<Rightarrow> outcome \<times> app" where
  "load_sample tk file s =
     (if \<not> py_truthy (factors s) then (Shown No_factors, s)
      else
        (case file of
           No_file \<Rightarrow> (Cancelled, s)
         | Unreadable \<Rightarrow> (Shown Sample_load_failed, s)
         | Parsed data \<Rightarrow>
        (case sample_file_ok (factors s) data of
           Inl e \<Rightarrow> (Raised e, s)
         | Inr False \<Rightarrow> (Shown Sample_load_failed, s)
         | Inr True \<Rightarrow>
        (case py_subscript data (JStr ''name'') of
           Inl e \<Rightarrow> (Raised e, s)
         | Inr name \<Rightarrow>
        (case to_key name of
           None \<Rightarrow> (Raised TypeError, s)
         | Some k \<Rightarrow>
        if k \<in> fst ` set (samples s) then (Shown Duplicate_name, s)
        else
        (case py_iter (factors s) of
           Inl e \<Rightarrow> (Raised e, s)
         | Inr fs \<Rightarrow>
        (case ordered_values data fs of
           Inl e \<Rightarrow> (Raised e, s)
         | Inr vals \<Rightarrow>
        (case py_subscript data (JStr ''color'') of
           Inl e \<Rightarrow> (Raised e, s)
         | Inr color \<Rightarrow>
             (let s1 = s\<lparr>samples := AList.update k
                          \<lparr>sample_values = vals, sample_color = color\<rparr> (samples s)\<rparr>
              in if \<not> add_sample_to_list_ui tk name color then (Raised Toolkit_error, s1)
                 else if \<not> update_chart tk s1 then (Raised Toolkit_error, s1)
                 else (Done, s1\<lparr>btn_save_sample := True\<rparr>))))))))))"

section \<open>Recolouring, sliders and the wiring of the buttons\<close>

text \<open>\<open>chosen\<close> is the colour picked in \<^verbatim>\<open>QColorDialog\<close>, as \<^verbatim>\<open>new_color.name()\<close> gives
  it, or nothing when the dialog returned an invalid colour.\<close>

definition change_sample_color :: "libs \<Rightarrow> pykey \<Rightarrow> string option \<Rightarrow> app \<Rightarrow> outcome \<times> app" where
  "change_sample_color tk sample_name chosen s =
     (case map_of (samples s) sample_name of
        None \<Rightarrow> (Raised KeyError, s)
      | Some sample_data \<Rightarrow>
     (case chosen of
        None \<Rightarrow> (Cancelled, s)
      | Some color_hex \<Rightarrow>
          (let s1 = s\<lparr>samples := AList.update sample_name
                       (sample_data\<lparr>sample_color := JStr color_hex\<rparr>) (samples s)\<rparr>
           in if \<not> update_chart tk s1 then (Raised Toolkit_error, s1) else (Done, s1))))"

text \<open>A slider made with \<^verbatim>\<open>setRange(1, 10)\<close> keeps its value inside the range.\<close>

definition slider_moved :: "pykey \<Rightarrow> int \<Rightarrow> app \<Rightarrow> app" where
  "slider_moved k v s =
     (case map_of (factor_controls s) k of
        None \<Rightarrow> s
      | Some _ \<Rightarrow> s\<lparr>factor_controls := AList.update k (max 1 (min 10 v)) (factor_controls s)\<rparr>)"

text \<open>
  What the user can do. \<^verbatim>\<open>init_ui\<close> connects each button to its slot; a disabled button
  emits nothing, and a colour swatch exists only for a stored sample.
\<close>

datatype event =
    Click_load_factors file_read
  | Click_load_sample file_read
  | Click_add_sample bool string
  | Click_save_sample bool string
  | Click_swatch pykey "string option"
  | Slide pykey int

definition step :: "libs \<Rightarrow> event \<Rightarrow> app \<Rightarrow> outcome \<times> app" where
  "step tk ev s =
     (case ev of
        Click_load_factors file \<Rightarrow> load_factors tk file s
      | Click_load_sample file \<Rightarrow> load_sample tk file s
      | Click_add_sample ok name \<Rightarrow>
          if btn_add_sample s then add_sample tk ok name s else (Ignored, s)
      | Click_save_sample ok name \<Rightarrow>
          if btn_save_sample s
          then (case save_sample tk ok name s of Inl e \<Rightarrow> (Raised e, s) | Inr _ \<Rightarrow> (Done, s))
          else (Ignored, s)
      | Click_swatch name chosen \<Rightarrow>
          if name \<in> fst ` set (samples s) then change_sample_color tk name chosen s
          else (Ignored, s)
      | Slide k v \<Rightarrow> (Done, slider_moved k v s))"

fun is_raised :: "outcome \<Rightarrow> bool" where
  "is_raised (Raised e) = True"
| "is_raised _ = False"

text \<open>
  The states of a session. An exception that escapes a slot ends the process (PyQt6
  aborts on it), so a session goes on only after a slot has returned.
\<close>

inductive reachable :: "libs \<Rightarrow> app \<Rightarrow> bool" for tk :: libs where
  start: "reachable tk init_app"
| after: "reachable tk s \<Longrightarrow> step tk ev s = (out, s') \<Longrightarrow> \<not> is_raised out \<Longrightarrow> reachable tk s'"

section \<open>Chart geometry\<close>

text \<open>
  \<^verbatim>\<open>np.linspace(start, stop, num, endpoint=False)\<close>: \<open>num\<close> samples \<open>start + i * step\<close>
  with \<open>step = (stop - start) / num\<close>. Angles are real numbers here; the rounding of
  double precision arithmetic is not represented.
\<close>

definition linspace :: "real \<Rightarrow> real \<Rightarrow> nat \<Rightarrow> real list" where
  "linspace start stop num = map (\<lambda>i. start + real i * ((stop - start) / real num)) [0..<num]"

text \<open>\<^verbatim>\<open>angles = np.linspace(0, 2 * np.pi, num_vars, endpoint=False).tolist()\<close> and
  \<^verbatim>\<open>angles += angles[:1]\<close>\<close>

definition chart_angles :: "nat \<Rightarrow> real list" where
  "chart_angles num_vars = (let angles = linspace 0 (2 * pi) num_vars in angles @ take 1 angles)"

text \<open>\<^verbatim>\<open>data['values'] + data['values'][:1]\<close>\<close>

definition closed_values :: "'a list \<Rightarrow> 'a list" where
  "closed_values vals = vals @ take 1 vals"

text \<open>\<^verbatim>\<open>ax.plot(angles, values, ...)\<close> draws the points \<open>(angles[i], values[i])\<close> and
  rejects sequences of different lengths.\<close>

definition plot :: "real list \<Rightarrow> 'a list \<Rightarrow> py_exc + (real \<times> 'a) list" where
  "plot xs ys = (if length xs = length ys then Inr (zip xs ys) else Inl Toolkit_error)"

definition sample_polygon :: "nat \<Rightarrow> 'a list \<Rightarrow> py_exc + (real \<times> 'a) list" where
  "sample_polygon num_vars vals = plot (chart_angles num_vars) (closed_values vals)"

section \<open>A library instance for the examples\<close>

text \<open>Widgets take strings for their texts and colours; every chart call returns.\<close>

fun is_text :: "json \<Rightarrow> bool" where
  "is_text (JStr t) = True"
| "is_text _ = False"

definition desktop :: libs where
  "desktop = \<lparr>factor_widgets = (\<lambda>name description. is_text name \<and> is_text description),
              sample_row = (\<lambda>name color. is_text name \<and> is_text color),
              draws = (\<lambda>fs ss. True),
              key_text = (\<lambda>k. ''null'')\<rparr>"

section \<open>Example documents and sessions\<close>

definition factor :: "string \<Rightarrow> string \<Rightarrow> json" where
  "factor name description = JObj [(''name'', JStr name), (''description'', JStr description)]"

definition one_factor :: json where
  "one_factor = JList [factor ''A'' ''d'']"

definition abc_factors :: json where
  "abc_factors = JList [factor ''A'' ''a'', factor ''B'' ''b'', factor ''C'' ''c'']"

definition twin_factors :: json where
  "twin_factors = JList [factor ''A'' ''x'', factor ''A'' ''y'']"

definition unnamed_factor :: json where
  "unnamed_factor = JList [factor [] []]"

definition sample_doc :: "string \<Rightarrow> string \<Rightarrow> (string \<times> json) list \<Rightarrow> json" where
  "sample_doc name color vals = JObj [(''name'', JStr name), (''color'', JStr color), (''values'', JObj vals)]"

definition session_A :: app where
  "session_A = \<lparr>factors = one_factor, samples = [], factor_controls = [(KStr ''A'', 5)],
                 btn_add_sample = True, btn_save_sample = False\<rparr>"

definition session_AX :: app where
  "session_AX = \<lparr>factors = one_factor,
                  samples = [(KStr ''X'', \<lparr>sample_values = [JInt 5], sample_color = JStr ''#34a853''\<rparr>)],
                  factor_controls = [(KStr ''A'', 5)],
                  btn_add_sample = True, btn_save_sample = True\<rparr>"

definition session_ABC :: app where
  "session_ABC = \<lparr>factors = abc_factors, samples = [],
                   factor_controls = [(KStr ''A'', 5), (KStr ''B'', 5), (KStr ''C'', 5)],
                   btn_add_sample = True, btn_save_sample = False\<rparr>"


definition session_AX_red :: app where
  "session_AX_red = session_AX\<lparr>samples :=
      [(KStr ''X'', \<lparr>sample_values = [JInt 5], sample_color = JStr ''#ff0000''\<rparr>)]\<rparr>"

section \<open>Notions used to state the properties\<close>

text \<open>A candidate factor record is a JSON object.\<close>

fun is_record :: "json \<Rightarrow> bool" where
  "is_record (JObj d) = True"
| "is_record _ = False"

text \<open>\<^verbatim>\<open>len(x)\<close>, and what the specification asks of a score: an integer from 1 to 10.\<close>

fun py_len :: "json \<Rightarrow> py_exc + nat" where
  "py_len (JList xs) = Inr (length xs)"
| "py_len (JObj d) = Inr (length d)"
| "py_len (JStr s) = Inr (length s)"
| "py_len _ = Inl TypeError"

fun score_ok :: "json \<Rightarrow> bool" where
  "score_ok (JInt i) = (1 \<le> i \<and> i \<le> 10)"
| "score_ok _ = False"

definition shape_ok :: "app \<Rightarrow> bool" where
  "shape_ok s = (\<forall>(k, smp) \<in> set (samples s). py_len (factors s) = Inr (length (sample_values smp)))"

definition sliders_in_range :: "app \<Rightarrow> bool" where
  "sliders_in_range s = (\<forall>(k, v) \<in> set (factor_controls s). 1 \<le> v \<and> v \<le> 10)"


text \<open>What holds in every state of a session: see \<open>reachable_inv\<close>.\<close>

definition session_inv :: "app \<Rightarrow> bool" where
  "session_inv s = (shape_ok s \<and> sliders_in_range s \<and>
            (\<not> btn_add_sample s \<longrightarrow> factors s = JList [] \<and> samples s = []))"

section \<open>Evaluating the examples\<close>

lemmas example_defs = factor_def one_factor_def abc_factors_def twin_factors_def unnamed_factor_def
  sample_doc_def session_A_def session_AX_def session_ABC_def init_app_def desktop_def

lemmas slot_defs = load_factors_def clear_all_def setup_ui_for_factors_def update_chart_def
  add_sample_def add_sample_to_list_ui_def default_colors_def load_sample_def sample_file_ok_def
  step_def

lemma reachable_A: "reachable desktop session_A"
proof -
  have "step desktop (Click_load_factors (Parsed one_factor)) init_app = (Done, session_A)"
    by (simp add: example_defs slot_defs)
  from reachable.after[OF reachable.start this] show ?thesis by simp
qed

lemma reachable_AX: "reachable desktop session_AX"
proof -
  have "step desktop (Click_add_sample True ''X'') session_A = (Done, session_AX)"
    by (simp add: example_defs slot_defs)
  from reachable.after[OF reachable_A this] show ?thesis by simp
qed

section \<open>Loading factors: what is rejected, what is kept\<close>

lemma setup_factor_widgets_keeps:
  "setup_factor_widgets tk items s = (r, s') \<Longrightarrow>
     samples s' = samples s \<and> factors s' = factors s \<and>
     btn_add_sample s' = btn_add_sample s \<and> btn_save_sample s' = btn_save_sample s"
  by (induction items arbitrary: s) (auto split: sum.splits option.splits if_splits)

lemma setup_ui_for_factors_keeps:
  "setup_ui_for_factors tk s = (r, s') \<Longrightarrow>
     samples s' = samples s \<and> factors s' = factors s \<and>
     btn_add_sample s' = btn_add_sample s \<and> btn_save_sample s' = btn_save_sample s"
  by (auto simp: setup_ui_for_factors_def dest: setup_factor_widgets_keeps split: sum.splits)

lemma load_factors_Done:
  assumes "load_factors tk file s = (Done, s')"
  obtains doc items s2 where "file = Parsed doc" "py_iter doc = Inr items"
    "all_have_fields items = Inr True"
    "setup_ui_for_factors tk ((clear_all s)\<lparr>factors := doc\<rparr>) = (None, s2)"
    "update_chart tk s2" "s' = s2\<lparr>btn_add_sample := True\<rparr>"
  using assms unfolding load_factors_def
  by (auto simp: Let_def split: file_read.splits sum.splits bool.splits prod.splits option.splits if_splits)

text \<open>
  Claim C5 (reset on factor replacement). Whatever the state was, once \<^verbatim>\<open>load_factors\<close>
  has run to its end the sample store is empty: \<^verbatim>\<open>_clear_all\<close> has emptied
  \<^verbatim>\<open>self.samples\<close> and nothing on the way to the end of the slot stores a sample.
\<close>

theorem load_factors_resets_samples:
  "load_factors tk file s = (Done, s') \<Longrightarrow> samples s' = []"
  by (erule load_factors_Done) (auto dest!: setup_ui_for_factors_keeps simp: clear_all_def)

text \<open>Loading a factor file into a session that holds the sample X.\<close>

theorem load_factors_resets_samples_witness:
  "load_factors desktop (Parsed one_factor) session_AX = (Done, session_A)
   \<and> samples session_AX \<noteq> [] \<and> samples session_A = []"
proof -
  have l: "load_factors desktop (Parsed one_factor) session_AX = (Done, session_A)"
    by (simp add: example_defs slot_defs)
  from load_factors_resets_samples[OF l] l show ?thesis
    by (simp add: session_AX_def)
qed

lemma py_in_exc: "py_in k x = Inl e \<Longrightarrow> e = TypeError"
  by (cases x) auto

lemma all_have_fields_exc: "all_have_fields items = Inl e \<Longrightarrow> e = TypeError"
  by (induction items) (auto split: sum.splits bool.splits dest: py_in_exc)

lemma all_have_fields_True:
  "all_have_fields items = Inr True \<Longrightarrow> item \<in> set items \<Longrightarrow>
     py_in ''name'' item = Inr True \<and> py_in ''description'' item = Inr True"
  by (induction items) (auto split: sum.splits bool.splits)

lemma all_have_fields_records:
  "list_all is_record items \<Longrightarrow> \<exists>b. all_have_fields items = Inr b"
proof (induction items)
  case Nil
  then show ?case by auto
next
  case (Cons item rest)
  then obtain d where "item = JObj d" by (cases item) auto
  with Cons show ?case by (auto split: bool.splits)
qed

lemma load_factors_rejected:
  assumes "py_iter doc = Inr items" "all_have_fields items = Inr False"
  shows "load_factors tk (Parsed doc) s = (Shown Factor_load_failed, s)"
  using assms by (simp add: load_factors_def)

lemma load_factors_check_raises:
  assumes "py_iter doc = Inr items" "all_have_fields items = Inl e"
  shows "load_factors tk (Parsed doc) s = (Raised TypeError, s)"
  using assms all_have_fields_exc[OF assms(2)] by (simp add: load_factors_def)

lemma lacking_record_not_True:
  assumes "JObj d \<in> set items" "\<not> (''name'' \<in> fst ` set d \<and> ''description'' \<in> fst ` set d)"
  shows "all_have_fields items \<noteq> Inr True"
proof
  assume "all_have_fields items = Inr True"
  from all_have_fields_True[OF this assms(1)] assms(2) show False by auto
qed

text \<open>
  Claim C2, as the code has it. When every element of the loaded list is a record (a JSON
  object) and one of them lacks \<^verbatim>\<open>name\<close> or \<^verbatim>\<open>description\<close>, \<^verbatim>\<open>load_factors\<close> shows its
  error message and leaves the state as it was. When it runs to its end, \<^verbatim>\<open>self.factors\<close>
  is the loaded document itself, so the order of the factors is the order of the file.
  Names are not compared with one another.
\<close>

theorem load_factors_validates_records:
  "(list_all is_record items \<and>
      (\<exists>d. JObj d \<in> set items \<and> \<not> (''name'' \<in> fst ` set d \<and> ''description'' \<in> fst ` set d))
      \<longrightarrow> load_factors tk (Parsed (JList items)) s = (Shown Factor_load_failed, s))
   \<and> (load_factors tk (Parsed doc) s = (Done, s') \<longrightarrow> factors s' = doc)"
proof (intro conjI impI)
  assume a: "list_all is_record items \<and>
      (\<exists>d. JObj d \<in> set items \<and> \<not> (''name'' \<in> fst ` set d \<and> ''description'' \<in> fst ` set d))"
  then obtain b where b: "all_have_fields items = Inr b"
    using all_have_fields_records by blast
  from a lacking_record_not_True have "all_have_fields items \<noteq> Inr True" by blast
  with b have "all_have_fields items = Inr False" by (cases b) auto
  then show "load_factors tk (Parsed (JList items)) s = (Shown Factor_load_failed, s)"
    by (intro load_factors_rejected[where items = items]) auto
next
  assume "load_factors tk (Parsed doc) s = (Done, s')"
  then show "factors s' = doc"
    by (rule load_factors_Done) (auto dest!: setup_ui_for_factors_keeps)
qed

text \<open>A list whose second record has no description, and the three-factor file.\<close>

theorem load_factors_validates_records_witness:
  "list_all is_record [factor ''A'' ''a'', JObj [(''name'', JStr ''B'')]]
   \<and> ''description'' \<notin> fst ` set [(''name'', JStr ''B'')]
   \<and> load_factors desktop (Parsed (JList [factor ''A'' ''a'', JObj [(''name'', JStr ''B'')]])) session_AX
       = (Shown Factor_load_failed, session_AX)
   \<and> load_factors desktop (Parsed abc_factors) session_AX = (Done, session_ABC)
   \<and> factors session_ABC = abc_factors"
proof -
  let ?items = "[factor ''A'' ''a'', JObj [(''name'', JStr ''B'')]]"
  have r: "list_all is_record ?items" by (simp add: factor_def)
  have m: "JObj [(''name'', JStr ''B'')] \<in> set ?items"
    "\<not> (''name'' \<in> fst ` set [(''name'', JStr ''B'')] \<and> ''description'' \<in> fst ` set [(''name'', JStr ''B'')])"
    by simp_all
  have l: "load_factors desktop (Parsed abc_factors) session_AX = (Done, session_ABC)"
    by (simp add: example_defs slot_defs)
  have a: "load_factors desktop (Parsed (JList ?items)) session_AX = (Shown Factor_load_failed, session_AX)"
    using load_factors_validates_records[where items = ?items and tk = desktop and s = session_AX] r m
    by blast
  have b: "factors session_ABC = abc_factors"
    using load_factors_validates_records[where tk = desktop and s = session_AX and doc = abc_factors
        and s' = session_ABC] l by blast
  from r m(2) a l b show ?thesis by simp
qed

text \<open>Against C2 as stated: a file with two factors named A is accepted.\<close>

theorem duplicate_factor_names_accepted:
  "load_factors desktop (Parsed twin_factors) init_app =
     (Done, \<lparr>factors = twin_factors, samples = [], factor_controls = [(KStr ''A'', 5)],
             btn_add_sample = True, btn_save_sample = False\<rparr>)
   \<and> factor_names [factor ''A'' ''x'', factor ''A'' ''y''] = Inr [KStr ''A'', KStr ''A'']"
  by (simp add: example_defs slot_defs)

lemma one_char_no_name: "\<not> sublist ''name'' [c]"
  by (auto dest: sublist_length_le)

text \<open>
  Claim C10, as the code has it. A document that \<^verbatim>\<open>load_factors\<close> accepts is a list whose
  elements all pass the two \<^verbatim>\<open>in\<close> tests, or it is the empty object or the empty string,
  which the loop over the document never inspects. A list with an object that lacks
  \<^verbatim>\<open>name\<close> or \<^verbatim>\<open>description\<close> is never accepted and the state stays as it was: the slot
  shows its error message, or an element before the faulty one (a number, a boolean,
  \<^verbatim>\<open>null\<close>) makes the \<^verbatim>\<open>in\<close> test raise a \<^verbatim>\<open>TypeError\<close> that no clause catches.
\<close>

theorem factor_document_shape:
  "(load_factors tk (Parsed doc) s = (Done, s') \<longrightarrow>
      (\<exists>items. doc = JList items \<and>
         (\<forall>item \<in> set items. py_in ''name'' item = Inr True \<and> py_in ''description'' item = Inr True))
      \<or> doc = JObj [] \<or> doc = JStr [])
   \<and> (JObj d \<in> set items \<and> \<not> (''name'' \<in> fst ` set d \<and> ''description'' \<in> fst ` set d) \<longrightarrow>
        load_factors tk (Parsed (JList items)) s = (Shown Factor_load_failed, s)
        \<or> load_factors tk (Parsed (JList items)) s = (Raised TypeError, s))"
proof (intro conjI impI)
  assume "load_factors tk (Parsed doc) s = (Done, s')"
  then show "(\<exists>items. doc = JList items \<and>
         (\<forall>item \<in> set items. py_in ''name'' item = Inr True \<and> py_in ''description'' item = Inr True))
      \<or> doc = JObj [] \<or> doc = JStr []"
  proof (rule load_factors_Done)
    fix doc' items s2
    assume d: "Parsed doc = Parsed doc'" and it: "py_iter doc' = Inr items"
      and ok: "all_have_fields items = Inr True"
      and ui: "setup_ui_for_factors tk ((clear_all s)\<lparr>factors := doc'\<rparr>) = (None, s2)"
    show ?thesis
    proof (cases doc)
      case (JList xs)
      with d it ok all_have_fields_True show ?thesis by auto
    next
      case (JObj m)
      show ?thesis
      proof (cases m)
        case Nil
        with JObj show ?thesis by simp
      next
        case (Cons p m')
        with JObj d ui have False
          by (cases p) (auto simp: setup_ui_for_factors_def)
        then show ?thesis ..
      qed
    next
      case (JStr t)
      show ?thesis
      proof (cases t)
        case Nil
        with JStr show ?thesis by simp
      next
        case (Cons c t')
        with JStr d it ok one_char_no_name[of c] have False by auto
        then show ?thesis ..
      qed
    qed (use d it in auto)
  qed
next
  assume a: "JObj d \<in> set items \<and> \<not> (''name'' \<in> fst ` set d \<and> ''description'' \<in> fst ` set d)"
  then have n: "all_have_fields items \<noteq> Inr True" using lacking_record_not_True by blast
  show "load_factors tk (Parsed (JList items)) s = (Shown Factor_load_failed, s)
        \<or> load_factors tk (Parsed (JList items)) s = (Raised TypeError, s)"
  proof (cases "all_have_fields items")
    case (Inl e)
    then show ?thesis using load_factors_check_raises[of "JList items" items e] by simp
  next
    case (Inr b)
    with n have "all_have_fields items = Inr False" by (cases b) auto
    then show ?thesis using load_factors_rejected[of "JList items" items] by simp
  qed
qed

text \<open>The one-factor file, and a list whose only record has no name.\<close>

theorem factor_document_shape_witness:
  "load_factors desktop (Parsed one_factor) init_app = (Done, session_A)
   \<and> (\<exists>items. one_factor = JList items \<and>
        (\<forall>item \<in> set items. py_in ''name'' item = Inr True \<and> py_in ''description'' item = Inr True))
   \<and> ''name'' \<notin> fst ` set [(''description'', JStr ''d'')]
   \<and> (load_factors desktop (Parsed (JList [JObj [(''description'', JStr ''d'')]])) session_AX
         = (Shown Factor_load_failed, session_AX)
       \<or> load_factors desktop (Parsed (JList [JObj [(''description'', JStr ''d'')]])) session_AX
         = (Raised TypeError, session_AX))"
proof -
  have l: "load_factors desktop (Parsed one_factor) init_app = (Done, session_A)"
    by (simp add: example_defs slot_defs)
  have d: "one_factor \<noteq> JObj []" "one_factor \<noteq> JStr []" by (simp_all add: one_factor_def)
  have m: "JObj [(''description'', JStr ''d'')] \<in> set [JObj [(''description'', JStr ''d'')]]"
    "''name'' \<notin> fst ` set [(''description'', JStr ''d'')]"
    by simp_all
  have a: "(\<exists>items. one_factor = JList items \<and>
        (\<forall>item \<in> set items. py_in ''name'' item = Inr True \<and> py_in ''description'' item = Inr True))"
    using factor_document_shape[where tk = desktop and doc = one_factor and s = init_app
        and s' = session_A] l d by blast
  have b: "load_factors desktop (Parsed (JList [JObj [(''description'', JStr ''d'')]])) session_AX
         = (Shown Factor_load_failed, session_AX)
       \<or> load_factors desktop (Parsed (JList [JObj [(''description'', JStr ''d'')]])) session_AX
         = (Raised TypeError, session_AX)"
    using factor_document_shape[where tk = desktop and s = session_AX
        and d = "[(''description'', JStr ''d'')]" and items = "[JObj [(''description'', JStr ''d'')]]"] m
    by blast
  from l a m(2) b show ?thesis by blast
qed

text \<open>Against C10 as stated: the document \<^verbatim>\<open>{}\<close>, which is not a list, is accepted.\<close>

theorem empty_object_accepted:
  "load_factors desktop (Parsed (JObj [])) init_app =
     (Done, \<lparr>factors = JObj [], samples = [], factor_controls = [],
             btn_add_sample = True, btn_save_sample = False\<rparr>)"
  by (simp add: load_factors_def init_app_def clear_all_def setup_ui_for_factors_def
      desktop_def update_chart_def)

section \<open>Loading and adding samples\<close>

lemma subscript_name_record:
  "py_subscript x (JStr k) = Inr v \<Longrightarrow> \<exists>d. x = JObj d \<and> map_of d k = Some v"
  by (cases x) (auto split: option.splits)

lemma all_in_record: "\<exists>b. all_in ks (JObj d) = Inr b"
  by (induction ks) (auto split: bool.splits)

text \<open>
  Claim C3 (key-set strictness). With a non-empty factor list whose factors all carry a
  hashable \<^verbatim>\<open>name\<close>, a sample document whose \<^verbatim>\<open>values\<close> mapping has a key set different
  from the set of factor names is rejected with the "Failed to load sample file" message,
  whatever the scores are, and the state is unchanged.
\<close>

theorem key_set_mismatch_rejected:
  assumes "py_truthy (factors s)"
    and "py_subscript data (JStr ''values'') = Inr (JObj vs)"
    and "py_iter (factors s) = Inr fs"
    and "factor_names fs = Inr names"
    and "KStr ` fst ` set vs \<noteq> set names"
  shows "load_sample tk (Parsed data) s = (Shown Sample_load_failed, s)"
proof -
  from assms(2) obtain d where d: "data = JObj d"
    using subscript_name_record by blast
  obtain b where b: "all_in [''name'', ''values'', ''color''] data = Inr b"
    using all_in_record d by blast
  have "sample_file_ok (factors s) data = Inr False"
  proof (cases b)
    case True
    with b assms show ?thesis by (simp add: sample_file_ok_def)
  next
    case False
    with b show ?thesis by (simp add: sample_file_ok_def)
  qed
  with assms(1) show ?thesis by (simp add: load_sample_def)
qed

text \<open>Factors A, B, C and a sample file with values for A and B only.\<close>

theorem key_set_mismatch_rejected_witness:
  "KStr ` fst ` set [(''A'', JInt 7), (''B'', JInt 3)] \<noteq> set [KStr ''A'', KStr ''B'', KStr ''C'']
   \<and> load_sample desktop (Parsed (sample_doc ''S'' ''#34a853'' [(''A'', JInt 7), (''B'', JInt 3)]))
        session_ABC = (Shown Sample_load_failed, session_ABC)"
proof -
  let ?vs = "[(''A'', JInt 7), (''B'', JInt 3)]"
  let ?fs = "[factor ''A'' ''a'', factor ''B'' ''b'', factor ''C'' ''c'']"
  have h: "py_truthy (factors session_ABC)"
    "py_subscript (sample_doc ''S'' ''#34a853'' ?vs) (JStr ''values'') = Inr (JObj ?vs)"
    "py_iter (factors session_ABC) = Inr ?fs"
    "factor_names ?fs = Inr [KStr ''A'', KStr ''B'', KStr ''C'']"
    by (simp_all add: example_defs)
  have n: "KStr ` fst ` set ?vs \<noteq> set [KStr ''A'', KStr ''B'', KStr ''C'']"
  proof
    assume "KStr ` fst ` set ?vs = set [KStr ''A'', KStr ''B'', KStr ''C'']"
    then have "KStr ''C'' \<in> KStr ` fst ` set ?vs" by simp
    then show False by simp
  qed
  from key_set_mismatch_rejected[OF h n, of desktop] n show ?thesis by simp
qed



lemma py_iter_len: "py_iter x = Inr items \<Longrightarrow> py_len x = Inr (length items)"
  by (cases x) auto

lemma set_update_subset: "set (AList.update k v al) \<subseteq> insert (k, v) (set al)"
  by (induction al) auto

lemma update_fresh: "k \<notin> fst ` set al \<Longrightarrow> AList.update k v al = al @ [(k, v)]"
  by (induction al) auto

lemma slider_values_range:
  "slider_values controls fs = Inr vs \<Longrightarrow>
     length vs = length fs \<and> (\<forall>v \<in> set vs. \<exists>k. (k, v) \<in> set controls)"
  by (induction fs arbitrary: vs)
    (auto split: sum.splits option.splits dest!: map_of_SomeD)

lemma ordered_values_length: "ordered_values data fs = Inr vs \<Longrightarrow> length vs = length fs"
  by (induction fs arbitrary: vs) (auto split: sum.splits)

lemma sliders_update:
  "sliders_in_range s \<Longrightarrow> 1 \<le> v \<Longrightarrow> v \<le> 10 \<Longrightarrow>
     sliders_in_range (s\<lparr>factor_controls := AList.update k v (factor_controls s)\<rparr>)"
  using set_update_subset[of k v "factor_controls s"]
  by (auto simp: sliders_in_range_def)

lemma setup_factor_widgets_sliders:
  "setup_factor_widgets tk items s = (r, s') \<Longrightarrow> sliders_in_range s \<Longrightarrow> sliders_in_range s'"
proof (induction items arbitrary: s)
  case Nil
  then show ?case by simp
next
  case (Cons factor rest)
  from Cons.prems(1) consider "s' = s"
    | k where "setup_factor_widgets tk rest
                 (s\<lparr>factor_controls := AList.update k 5 (factor_controls s)\<rparr>) = (r, s')"
    by (auto split: sum.splits option.splits if_splits)
  then show ?case
  proof cases
    case 1
    with Cons.prems(2) show ?thesis by simp
  next
    case 2
    from Cons.IH[OF 2 sliders_update[OF Cons.prems(2)]] show ?thesis by simp
  qed
qed

lemma session_inv_init: "session_inv init_app"
  by (simp add: session_inv_def init_app_def shape_ok_def sliders_in_range_def)

lemma load_factors_inv:
  assumes "load_factors tk file s = (out, s')" "\<not> is_raised out" "session_inv s"
  shows "session_inv s'"
proof (cases "out = Done")
  case True
  with assms(1) have d: "load_factors tk file s = (Done, s')" by simp
  show ?thesis
  proof (rule load_factors_Done[OF d])
    fix doc items s2
    assume ui: "setup_ui_for_factors tk (clear_all s\<lparr>factors := doc\<rparr>) = (None, s2)"
      and s': "s' = s2\<lparr>btn_add_sample := True\<rparr>"
    from ui have k: "samples s2 = []"
      by (auto dest!: setup_ui_for_factors_keeps simp: clear_all_def)
    have "sliders_in_range (clear_all s\<lparr>factors := doc\<rparr>)"
      by (simp add: sliders_in_range_def clear_all_def)
    with ui have "sliders_in_range s2"
      by (auto simp: setup_ui_for_factors_def split: sum.splits dest: setup_factor_widgets_sliders)
    with k s' show "session_inv s'"
      by (simp add: session_inv_def shape_ok_def sliders_in_range_def)
  qed
next
  case False
  with assms(1,2) have "s' = s"
    unfolding load_factors_def
    by (auto simp: Let_def split: file_read.splits sum.splits bool.splits prod.splits option.splits if_splits)
  with assms(3) show ?thesis by simp
qed

lemma add_sample_stored:
  assumes "add_sample tk ok name s = (out, s')"
  shows "s' = s \<or> (\<exists>items vals. py_iter (factors s) = Inr items \<and>
           slider_values (factor_controls s) items = Inr vals \<and>
           KStr name \<notin> fst ` set (samples s) \<and>
           samples s' = samples s @ [(KStr name, \<lparr>sample_values = map JInt vals,
              sample_color = JStr (default_colors ! (length (samples s) mod length default_colors))\<rparr>)] \<and>
           factors s' = factors s \<and> factor_controls s' = factor_controls s \<and>
           btn_add_sample s' = btn_add_sample s)"
  using assms unfolding add_sample_def
  by (auto simp: Let_def update_fresh split: sum.splits if_splits)

lemma load_sample_stored:
  assumes "load_sample tk file s = (out, s')"
  shows "s' = s \<or> (\<exists>data items vals k color. file = Parsed data \<and> py_truthy (factors s) \<and>
           py_iter (factors s) = Inr items \<and>
           ordered_values data items = Inr vals \<and>
           py_subscript data (JStr ''color'') = Inr color \<and>
           k \<notin> fst ` set (samples s) \<and>
           samples s' = samples s @ [(k, \<lparr>sample_values = vals, sample_color = color\<rparr>)] \<and>
           factors s' = factors s \<and> factor_controls s' = factor_controls s \<and>
           btn_add_sample s' = btn_add_sample s)"
  using assms unfolding load_sample_def
  by (auto simp: Let_def update_fresh split: file_read.splits sum.splits bool.splits option.splits if_splits)

lemma add_sample_inv:
  assumes "add_sample tk ok name s = (out, s')" "session_inv s"
  shows "shape_ok s' \<and> sliders_in_range s'"
  using add_sample_stored[OF assms(1)] assms(2)
  by (auto simp: session_inv_def shape_ok_def sliders_in_range_def
      dest!: slider_values_range py_iter_len)

lemma load_sample_inv:
  assumes "load_sample tk file s = (out, s')" "session_inv s"
  shows "shape_ok s' \<and> sliders_in_range s'"
  using load_sample_stored[OF assms(1)] assms(2)
  by (auto simp: session_inv_def shape_ok_def sliders_in_range_def
      dest!: ordered_values_length py_iter_len)

lemma change_sample_color_stored:
  assumes "change_sample_color tk k chosen s = (out, s')"
  shows "s' = s \<or> (\<exists>smp c. chosen = Some c \<and> map_of (samples s) k = Some smp \<and>
           samples s' = AList.update k (smp\<lparr>sample_color := JStr c\<rparr>) (samples s) \<and>
           factors s' = factors s \<and> factor_controls s' = factor_controls s \<and>
           btn_add_sample s' = btn_add_sample s)"
  using assms unfolding change_sample_color_def
  by (auto simp: Let_def split: option.splits if_splits)

lemma change_sample_color_inv:
  assumes "change_sample_color tk k chosen s = (out, s')" "session_inv s"
  shows "session_inv s'"
proof -
  from change_sample_color_stored[OF assms(1)] show ?thesis
  proof
    assume "s' = s"
    with assms(2) show ?thesis by simp
  next
    assume "\<exists>smp c. chosen = Some c \<and> map_of (samples s) k = Some smp \<and>
           samples s' = AList.update k (smp\<lparr>sample_color := JStr c\<rparr>) (samples s) \<and>
           factors s' = factors s \<and> factor_controls s' = factor_controls s \<and>
           btn_add_sample s' = btn_add_sample s"
    then obtain smp c where m: "map_of (samples s) k = Some smp"
      and u: "samples s' = AList.update k (smp\<lparr>sample_color := JStr c\<rparr>) (samples s)"
      and k: "factors s' = factors s" "factor_controls s' = factor_controls s"
        "btn_add_sample s' = btn_add_sample s"
      by blast
    from m have in_s: "(k, smp) \<in> set (samples s)" by (rule map_of_SomeD)
    then have ne: "samples s \<noteq> []" by auto
    have "shape_ok s'"
      unfolding shape_ok_def
    proof (intro ballI, clarify)
      fix k' smp'
      assume "(k', smp') \<in> set (samples s')"
      with u set_update_subset[of k "smp\<lparr>sample_color := JStr c\<rparr>" "samples s"]
      have "(k', smp') = (k, smp\<lparr>sample_color := JStr c\<rparr>) \<or> (k', smp') \<in> set (samples s)"
        by auto
      with in_s assms(2) k show "py_len (factors s') = Inr (length (sample_values smp'))"
        by (auto simp: session_inv_def shape_ok_def)
    qed
    with assms(2) k ne show ?thesis
      by (auto simp: session_inv_def sliders_in_range_def)
  qed
qed

lemma slider_moved_inv: "session_inv s \<Longrightarrow> session_inv (slider_moved k v s)"
proof -
  assume a: "session_inv s"
  have "sliders_in_range (s\<lparr>factor_controls := AList.update k (max 1 (min 10 v)) (factor_controls s)\<rparr>)"
    using a by (intro sliders_update) (auto simp: session_inv_def)
  with a show ?thesis
    by (auto simp: slider_moved_def session_inv_def shape_ok_def split: option.splits)
qed

lemma step_inv:
  assumes "step tk ev s = (out, s')" "\<not> is_raised out" "session_inv s"
  shows "session_inv s'"
proof (cases ev)
  case (Click_load_factors f)
  with assms show ?thesis by (auto simp: step_def intro: load_factors_inv)
next
  case (Click_load_sample f)
  with assms have l: "load_sample tk f s = (out, s')" by (simp add: step_def)
  from load_sample_inv[OF l assms(3)] load_sample_stored[OF l] assms(3)
  show ?thesis by (auto simp: session_inv_def)
next
  case (Click_add_sample ok name)
  show ?thesis
  proof (cases "btn_add_sample s")
    case True
    with Click_add_sample assms have l: "add_sample tk ok name s = (out, s')"
      by (simp add: step_def)
    from add_sample_inv[OF l assms(3)] add_sample_stored[OF l] True
    show ?thesis by (auto simp: session_inv_def)
  next
    case False
    with Click_add_sample assms show ?thesis by (simp add: step_def)
  qed
next
  case (Click_save_sample ok name)
  with assms have "s' = s" by (auto simp: step_def split: if_splits sum.splits)
  with assms show ?thesis by simp
next
  case (Click_swatch k chosen)
  with assms show ?thesis
    by (auto simp: step_def split: if_splits intro: change_sample_color_inv)
next
  case (Slide k v)
  with assms show ?thesis by (auto simp: step_def intro: slider_moved_inv)
qed

lemma reachable_inv: "reachable tk s \<Longrightarrow> session_inv s"
  by (induction rule: reachable.induct) (auto intro: session_inv_init step_inv)

text \<open>
  Claim C1, as the code has it. In every state of a session each stored sample has as
  many values as there are factors, and a sample that \<^verbatim>\<open>add_sample\<close> puts into the store
  has only integers from 1 to 10 as values, because it reads them off sliders of that
  range. \<^verbatim>\<open>load_sample\<close> stores the values of the file as they are.
\<close>

theorem stored_sample_shape:
  assumes "reachable tk s"
  shows "(\<forall>(k, smp) \<in> set (samples s). py_len (factors s) = Inr (length (sample_values smp)))
     \<and> (\<forall>ok name out s' k smp.
          add_sample tk ok name s = (out, s') \<longrightarrow> (k, smp) \<in> set (samples s') \<longrightarrow>
          (k, smp) \<notin> set (samples s) \<longrightarrow>
          list_all score_ok (sample_values smp)
          \<and> py_len (factors s) = Inr (length (sample_values smp)))"
proof (intro conjI allI impI)
  from reachable_inv[OF assms] show
    "\<forall>(k, smp) \<in> set (samples s). py_len (factors s) = Inr (length (sample_values smp))"
    by (simp add: session_inv_def shape_ok_def)
next
  fix ok name out s' k smp
  assume a: "add_sample tk ok name s = (out, s')" and i: "(k, smp) \<in> set (samples s')"
    and n: "(k, smp) \<notin> set (samples s)"
  from add_sample_stored[OF a] i n obtain items vals where
    it: "py_iter (factors s) = Inr items"
    and sv: "slider_values (factor_controls s) items = Inr vals"
    and smp: "smp = \<lparr>sample_values = map JInt vals,
              sample_color = JStr (default_colors ! (length (samples s) mod length default_colors))\<rparr>"
    by auto
  from reachable_inv[OF assms] have "sliders_in_range s" by (simp add: session_inv_def)
  with slider_values_range[OF sv] have "\<forall>v \<in> set vals. 1 \<le> v \<and> v \<le> 10"
    by (auto simp: sliders_in_range_def)
  then have "list_all score_ok (map JInt vals)" by (auto simp: list_all_iff)
  with smp show "list_all score_ok (sample_values smp)" by simp
  from slider_values_range[OF sv] py_iter_len[OF it] smp
  show "py_len (factors s) = Inr (length (sample_values smp))" by simp
qed

text \<open>The session with factor A and sample X, and the sample Y added to it.\<close>

theorem stored_sample_shape_witness:
  "reachable desktop session_AX
   \<and> py_len (factors session_AX) = Inr (length [JInt 5])
   \<and> add_sample desktop True ''Y'' session_AX =
       (Done, session_AX\<lparr>samples := samples session_AX @
                [(KStr ''Y'', \<lparr>sample_values = [JInt 5], sample_color = JStr ''#4285f4''\<rparr>)]\<rparr>)
   \<and> list_all score_ok [JInt 5]"
proof -
  let ?y = "\<lparr>sample_values = [JInt 5], sample_color = JStr ''#4285f4''\<rparr>"
  let ?s' = "session_AX\<lparr>samples := samples session_AX @ [(KStr ''Y'', ?y)]\<rparr>"
  have a: "add_sample desktop True ''Y'' session_AX = (Done, ?s')"
    by (simp add: example_defs slot_defs)
  have i: "(KStr ''Y'', ?y) \<in> set (samples ?s')" "(KStr ''Y'', ?y) \<notin> set (samples session_AX)"
    "(KStr ''X'', \<lparr>sample_values = [JInt 5], sample_color = JStr ''#34a853''\<rparr>) \<in> set (samples session_AX)"
    by (simp_all add: example_defs)
  from stored_sample_shape[OF reachable_AX] a i show ?thesis
    using reachable_AX by fastforce
qed

text \<open>Against C1 as stated: a sample file with the score 99 is loaded and stored.\<close>

theorem loaded_score_unchecked:
  "load_factors desktop (Parsed one_factor) init_app = (Done, session_A)
   \<and> load_sample desktop (Parsed (sample_doc ''S'' ''#000000'' [(''A'', JInt 99)])) session_A =
       (Done, session_A\<lparr>samples := [(KStr ''S'', \<lparr>sample_values = [JInt 99],
                                                   sample_color = JStr ''#000000''\<rparr>)],
                        btn_save_sample := True\<rparr>)
   \<and> \<not> score_ok (JInt 99)"
  by (simp add: example_defs slot_defs)

text \<open>
  Claim C9, as the code has it. As long as the "Add Sample" button is disabled the store
  is empty, a click on the button does nothing and \<^verbatim>\<open>load_sample\<close> answers "Please load
  factors before loading a sample"; \<^verbatim>\<open>load_sample\<close> gives that answer whenever the factor
  list is empty; and the button becomes enabled only through a \<^verbatim>\<open>load_factors\<close> that ran
  to its end. Nothing is asked of the factor names.
\<close>

theorem no_sample_before_factors:
  assumes "reachable tk s"
  shows "(\<not> btn_add_sample s \<longrightarrow>
            samples s = []
            \<and> step tk (Click_add_sample ok name) s = (Ignored, s)
            \<and> step tk (Click_load_sample f) s = (Shown No_factors, s))
       \<and> (\<not> py_truthy (factors s) \<longrightarrow> load_sample tk f s = (Shown No_factors, s))
       \<and> (\<forall>ev out s'. step tk ev s = (out, s') \<longrightarrow> \<not> btn_add_sample s \<longrightarrow> btn_add_sample s' \<longrightarrow>
            (\<exists>doc. ev = Click_load_factors (Parsed doc)) \<and> out = Done)"
proof -
  have disabled: "samples s = [] \<and> step tk (Click_add_sample ok name) s = (Ignored, s)
      \<and> step tk (Click_load_sample f) s = (Shown No_factors, s)"
    if "\<not> btn_add_sample s"
  proof -
    from that reachable_inv[OF assms] have "factors s = JList []" "samples s = []"
      by (auto simp: session_inv_def)
    with that show ?thesis by (simp add: step_def load_sample_def)
  qed
  have guard: "load_sample tk f s = (Shown No_factors, s)" if "\<not> py_truthy (factors s)"
    using that by (simp add: load_sample_def)
  have enabling: "(\<exists>doc. ev = Click_load_factors (Parsed doc)) \<and> out = Done"
    if st: "step tk ev s = (out, s')" and off: "\<not> btn_add_sample s" and on: "btn_add_sample s'"
    for ev out s'
  proof (cases ev)
    case (Click_load_factors fr)
    with st have l: "load_factors tk fr s = (out, s')" by (simp add: step_def)
    show ?thesis
    proof (cases "out = Done")
      case True
      with l Click_load_factors show ?thesis by (auto elim: load_factors_Done)
    next
      case False
      with l have "btn_add_sample s' \<longrightarrow> btn_add_sample s"
        unfolding load_factors_def
        by (auto simp: Let_def clear_all_def split: file_read.splits sum.splits bool.splits
            prod.splits option.splits if_splits dest!: setup_ui_for_factors_keeps)
      with off on show ?thesis by simp
    qed
  next
    case (Click_load_sample fr)
    with st load_sample_stored[of tk fr s out s'] off on show ?thesis by (auto simp: step_def)
  next
    case (Click_add_sample ok' name')
    with st off on show ?thesis by (simp add: step_def)
  next
    case (Click_save_sample ok' name')
    with st off on show ?thesis by (auto simp: step_def split: if_splits sum.splits)
  next
    case (Click_swatch k chosen)
    with st change_sample_color_stored[of tk k chosen s out s'] off on show ?thesis
      by (auto simp: step_def split: if_splits)
  next
    case (Slide k v)
    with st off on show ?thesis by (auto simp: step_def slider_moved_def split: option.splits)
  qed
  from disabled guard enabling show ?thesis by blast
qed

text \<open>The session just started, and the load that enables the button.\<close>

theorem no_sample_before_factors_witness:
  "reachable desktop init_app \<and> \<not> btn_add_sample init_app \<and> \<not> py_truthy (factors init_app)
   \<and> samples init_app = []
   \<and> step desktop (Click_add_sample True ''X'') init_app = (Ignored, init_app)
   \<and> step desktop (Click_load_sample (Parsed (sample_doc ''S'' ''#000000'' []))) init_app
        = (Shown No_factors, init_app)
   \<and> load_sample desktop (Parsed (sample_doc ''S'' ''#000000'' [])) init_app
        = (Shown No_factors, init_app)
   \<and> step desktop (Click_load_factors (Parsed one_factor)) init_app = (Done, session_A)
   \<and> btn_add_sample session_A"
proof -
  have h: "\<not> btn_add_sample init_app" "\<not> py_truthy (factors init_app)" "btn_add_sample session_A"
    by (simp_all add: example_defs)
  have l: "step desktop (Click_load_factors (Parsed one_factor)) init_app = (Done, session_A)"
    by (simp add: example_defs slot_defs)
  from no_sample_before_factors[OF reachable.start, where tk = desktop and ok = True
      and name = "''X''" and f = "Parsed (sample_doc ''S'' ''#000000'' [])"] h l
  show ?thesis using reachable.start[of desktop] by simp
qed

text \<open>Against C9 as stated: after loading a factor whose name is empty, a sample is
  created.\<close>

theorem unnamed_factor_enables_samples:
  "load_factors desktop (Parsed unnamed_factor) init_app =
     (Done, \<lparr>factors = unnamed_factor, samples = [], factor_controls = [(KStr [], 5)],
             btn_add_sample = True, btn_save_sample = False\<rparr>)
   \<and> step desktop (Click_add_sample True ''X'')
        \<lparr>factors = unnamed_factor, samples = [], factor_controls = [(KStr [], 5)],
         btn_add_sample = True, btn_save_sample = False\<rparr> =
     (Done, \<lparr>factors = unnamed_factor,
             samples = [(KStr ''X'', \<lparr>sample_values = [JInt 5], sample_color = JStr ''#34a853''\<rparr>)],
             factor_controls = [(KStr [], 5)],
             btn_add_sample = True, btn_save_sample = True\<rparr>)"
  by (simp add: example_defs slot_defs)

text \<open>
  The empty list is a further case: \<^verbatim>\<open>load_factors\<close> enables the "Add Sample" button after
  it too, although \<^verbatim>\<open>load_sample\<close> and \<^verbatim>\<open>_update_chart\<close> treat an empty factor list as no
  factors loaded; \<^verbatim>\<open>add_sample\<close> then stores a sample without values.
\<close>

lemma empty_factor_list_enables_button:
  "step desktop (Click_load_factors (Parsed (JList []))) init_app =
     (Done, init_app\<lparr>btn_add_sample := True\<rparr>)
   \<and> step desktop (Click_add_sample True ''X'') (init_app\<lparr>btn_add_sample := True\<rparr>) =
     (Done, init_app\<lparr>samples := [(KStr ''X'', \<lparr>sample_values = [], sample_color = JStr ''#34a853''\<rparr>)],
                     btn_add_sample := True, btn_save_sample := True\<rparr>)"
  by (simp add: example_defs slot_defs)

section \<open>Saving and loading back\<close>












section \<open>Geometry and colours\<close>

lemma length_linspace: "length (linspace a b n) = n"
  by (simp add: linspace_def)

lemma nth_linspace: "i < n \<Longrightarrow> linspace a b n ! i = a + real i * ((b - a) / real n)"
  by (simp add: linspace_def)

lemma take_one: "xs \<noteq> [] \<Longrightarrow> take (Suc 0) xs = [xs ! 0]"
  by (cases xs) auto

lemma length_update_present: "k \<in> fst ` set al \<Longrightarrow> length (AList.update k v al) = length al"
  by (induction al) auto

text \<open>
  Claim C7 (chart geometry). For \<open>m \<ge> 1\<close> factors and \<open>m\<close> values the chart gets \<open>m + 1\<close>
  points; point \<open>i\<close>, for \<open>i < m\<close>, has the angle \<open>i * (2 * pi / m)\<close> and the \<open>i\<close>-th value
  as radius, and the last point is the first one again.
\<close>

theorem chart_polygon_closed:
  assumes "1 \<le> m" "length v = m"
  shows "\<exists>pts. sample_polygon m v = Inr pts \<and> length pts = m + 1
           \<and> (\<forall>i<m. pts ! i = (real i * (2 * pi / real m), v ! i))
           \<and> pts ! m = pts ! 0"
proof -
  let ?a = "linspace 0 (2 * pi) m"
  let ?pts = "zip (?a @ [?a ! 0]) (v @ [v ! 0])"
  have ne: "?a \<noteq> []" "v \<noteq> []" using assms length_linspace[of 0 "2 * pi" m] by auto
  then have ca: "chart_angles m = ?a @ [?a ! 0]" and cv: "closed_values v = v @ [v ! 0]"
    by (simp_all add: chart_angles_def closed_values_def take_one Let_def)
  have p: "sample_polygon m v = Inr ?pts"
    using assms by (simp add: sample_polygon_def plot_def ca cv length_linspace)
  have l: "length ?pts = m + 1" using assms by (simp add: length_linspace)
  have n: "?pts ! i = (real i * (2 * pi / real m), v ! i)" if "i < m" for i
    using that assms by (simp add: nth_append length_linspace nth_linspace)
  have "?pts ! m = (?a ! 0, v ! 0)"
    using assms by (simp add: nth_append length_linspace)
  moreover have "?pts ! 0 = (?a ! 0, v ! 0)"
    using assms by (simp add: nth_append length_linspace)
  ultimately have c: "?pts ! m = ?pts ! 0" by simp
  from p l n c show ?thesis by blast
qed

text \<open>Three factors and the values 7, 3, 9.\<close>

theorem chart_polygon_closed_witness:
  "(1::nat) \<le> 3 \<and> length [JInt 7, JInt 3, JInt 9] = 3
   \<and> (\<exists>pts. sample_polygon 3 [JInt 7, JInt 3, JInt 9] = Inr pts \<and> length pts = 3 + 1
         \<and> (\<forall>i<3. pts ! i = (real i * (2 * pi / real 3), [JInt 7, JInt 3, JInt 9] ! i))
         \<and> pts ! 3 = pts ! 0)"
proof -
  have h: "(1::nat) \<le> 3" "length [JInt 7, JInt 3, JInt 9] = 3" by simp_all
  from chart_polygon_closed[OF h] h show ?thesis by simp
qed

text \<open>
  Claim C8 (default colour). A sample that \<^verbatim>\<open>add_sample\<close> stores gets the palette colour
  at index \<open>n mod k\<close>, with \<open>n\<close> the number of stored samples just before and \<open>k\<close> the
  length of the palette. A colour given explicitly takes its place: a sample loaded from
  a file has the colour of the file, and a colour chosen in the dialog becomes the
  sample's colour. Recolouring a sample before the next \<^verbatim>\<open>add_sample\<close> does not change
  the colour the new sample gets.
\<close>

theorem default_color_by_count:
  "(add_sample tk ok name s = (out, s') \<and> (k, smp) \<in> set (samples s') \<and> (k, smp) \<notin> set (samples s)
      \<longrightarrow> k = KStr name
          \<and> sample_color smp = JStr (default_colors ! (length (samples s) mod length default_colors)))
   \<and> (load_sample tk f s = (out, s') \<and> (k, smp) \<in> set (samples s') \<and> (k, smp) \<notin> set (samples s)
      \<longrightarrow> (\<exists>data. f = Parsed data \<and> py_subscript data (JStr ''color'') = Inr (sample_color smp)))
   \<and> (change_sample_color tk k' (Some c) s = (Done, sa) \<and> map_of (samples sa) k' = Some recolored_sample
      \<longrightarrow> sample_color recolored_sample = JStr c)
   \<and> (change_sample_color tk k' chosen s = (oa, sa) \<and> add_sample tk ok name sa = (ob, sb)
        \<and> (k, smp) \<in> set (samples sb) \<and> (k, smp) \<notin> set (samples sa)
      \<longrightarrow> sample_color smp = JStr (default_colors ! (length (samples s) mod length default_colors)))"
proof -
  have added: "k = KStr name
      \<and> sample_color smp = JStr (default_colors ! (length (samples s) mod length default_colors))"
    if "add_sample tk ok name s = (out, s')" "(k, smp) \<in> set (samples s')" "(k, smp) \<notin> set (samples s)"
    for s out s'
    using add_sample_stored[OF that(1)] that(2,3) by auto
  have loaded: "\<exists>data. f = Parsed data \<and> py_subscript data (JStr ''color'') = Inr (sample_color smp)"
    if "load_sample tk f s = (out, s')" "(k, smp) \<in> set (samples s')" "(k, smp) \<notin> set (samples s)"
    using load_sample_stored[OF that(1)] that(2,3) by auto
  have recolored: "sample_color recolored_sample = JStr c"
    if "change_sample_color tk k' (Some c) s = (Done, sa)" "map_of (samples sa) k' = Some recolored_sample"
    using that unfolding change_sample_color_def
    by (auto simp: Let_def update_conv' split: option.splits if_splits)
  have same_length: "length (samples sa) = length (samples s)"
    if "change_sample_color tk k' chosen s = (oa, sa)"
  proof -
    from change_sample_color_stored[OF that] show ?thesis
    proof
      assume "sa = s"
      then show ?thesis by simp
    next
      assume "\<exists>smp c. chosen = Some c \<and> map_of (samples s) k' = Some smp \<and>
           samples sa = AList.update k' (smp\<lparr>sample_color := JStr c\<rparr>) (samples s) \<and>
           factors sa = factors s \<and> factor_controls sa = factor_controls s \<and>
           btn_add_sample sa = btn_add_sample s"
      then obtain smp0 c0 where m: "map_of (samples s) k' = Some smp0"
        and u: "samples sa = AList.update k' (smp0\<lparr>sample_color := JStr c0\<rparr>) (samples s)"
        by blast
      from m have "k' \<in> fst ` set (samples s)" by (auto dest!: map_of_SomeD intro: rev_image_eqI)
      with u show ?thesis by (simp add: length_update_present)
    qed
  qed
  have later: "sample_color smp = JStr (default_colors ! (length (samples s) mod length default_colors))"
    if "change_sample_color tk k' chosen s = (oa, sa)" "add_sample tk ok name sa = (ob, sb)"
      "(k, smp) \<in> set (samples sb)" "(k, smp) \<notin> set (samples sa)"
    using added[OF that(2,3,4)] same_length[OF that(1)] by simp
  from added loaded recolored later show ?thesis by blast
qed

text \<open>The session with sample X: Y is added, Z is loaded with its own colour, and Y is
  added after X has been recoloured.\<close>

theorem default_color_by_count_witness:
  "add_sample desktop True ''Y'' session_AX =
     (Done, session_AX\<lparr>samples := samples session_AX @
        [(KStr ''Y'', \<lparr>sample_values = [JInt 5], sample_color = JStr ''#4285f4''\<rparr>)]\<rparr>)
   \<and> JStr ''#4285f4'' = JStr (default_colors ! (length (samples session_AX) mod length default_colors))
   \<and> load_sample desktop (Parsed (sample_doc ''Z'' ''#123456'' [(''A'', JInt 2)])) session_AX =
     (Done, session_AX\<lparr>samples := samples session_AX @
        [(KStr ''Z'', \<lparr>sample_values = [JInt 2], sample_color = JStr ''#123456''\<rparr>)]\<rparr>)
   \<and> py_subscript (sample_doc ''Z'' ''#123456'' [(''A'', JInt 2)]) (JStr ''color'') = Inr (JStr ''#123456'')
   \<and> change_sample_color desktop (KStr ''X'') (Some ''#ff0000'') session_AX = (Done, session_AX_red)
   \<and> map_of (samples session_AX_red) (KStr ''X'') =
        Some \<lparr>sample_values = [JInt 5], sample_color = JStr ''#ff0000''\<rparr>
   \<and> add_sample desktop True ''Y'' session_AX_red =
     (Done, session_AX_red\<lparr>samples := samples session_AX_red @
        [(KStr ''Y'', \<lparr>sample_values = [JInt 5], sample_color = JStr ''#4285f4''\<rparr>)]\<rparr>)"
proof -
  let ?y = "\<lparr>sample_values = [JInt 5], sample_color = JStr ''#4285f4''\<rparr>"
  let ?z = "\<lparr>sample_values = [JInt 2], sample_color = JStr ''#123456''\<rparr>"
  let ?x = "\<lparr>sample_values = [JInt 5], sample_color = JStr ''#ff0000''\<rparr>"
  let ?sY = "session_AX\<lparr>samples := samples session_AX @ [(KStr ''Y'', ?y)]\<rparr>"
  let ?sZ = "session_AX\<lparr>samples := samples session_AX @ [(KStr ''Z'', ?z)]\<rparr>"
  let ?sRY = "session_AX_red\<lparr>samples := samples session_AX_red @ [(KStr ''Y'', ?y)]\<rparr>"
  let ?doc = "sample_doc ''Z'' ''#123456'' [(''A'', JInt 2)]"
  have a: "add_sample desktop True ''Y'' session_AX = (Done, ?sY)"
    by (simp add: example_defs slot_defs)
  have ai: "(KStr ''Y'', ?y) \<in> set (samples ?sY)" "(KStr ''Y'', ?y) \<notin> set (samples session_AX)"
    by (simp_all add: example_defs)
  have l: "load_sample desktop (Parsed ?doc) session_AX = (Done, ?sZ)"
    by (simp add: example_defs slot_defs)
  have li: "(KStr ''Z'', ?z) \<in> set (samples ?sZ)" "(KStr ''Z'', ?z) \<notin> set (samples session_AX)"
    by (simp_all add: example_defs)
  have c: "change_sample_color desktop (KStr ''X'') (Some ''#ff0000'') session_AX = (Done, session_AX_red)"
    by (simp add: example_defs session_AX_red_def change_sample_color_def update_chart_def)
  have m: "map_of (samples session_AX_red) (KStr ''X'') = Some ?x"
    by (simp add: session_AX_red_def)
  have b: "add_sample desktop True ''Y'' session_AX_red = (Done, ?sRY)"
    by (simp add: example_defs session_AX_red_def slot_defs)
  have bi: "(KStr ''Y'', ?y) \<in> set (samples ?sRY)" "(KStr ''Y'', ?y) \<notin> set (samples session_AX_red)"
    by (simp_all add: example_defs session_AX_red_def)
  have 1: "sample_color ?y = JStr (default_colors ! (length (samples session_AX) mod length default_colors))"
    using default_color_by_count[where tk = desktop and ok = True and name = "''Y''"
        and s = session_AX and out = Done and s' = ?sY and k = "KStr ''Y''" and smp = ?y] a ai
    by blast
  have 2: "\<exists>data. Parsed ?doc = Parsed data \<and> py_subscript data (JStr ''color'') = Inr (sample_color ?z)"
    using default_color_by_count[where tk = desktop and f = "Parsed ?doc"
        and s = session_AX and out = Done and s' = ?sZ and k = "KStr ''Z''" and smp = ?z] l li
    by blast
  have 3: "sample_color ?x = JStr ''#ff0000''"
    using default_color_by_count[where tk = desktop and k' = "KStr ''X''" and c = "''#ff0000''"
        and s = session_AX and sa = session_AX_red and recolored_sample = ?x] c m
    by blast
  have 4: "sample_color ?y = JStr (default_colors ! (length (samples session_AX) mod length default_colors))"
    using default_color_by_count[where tk = desktop and k' = "KStr ''X''" and chosen = "Some ''#ff0000''"
        and s = session_AX and oa = Done and sa = session_AX_red and ok = True and name = "''Y''"
        and ob = Done and sb = ?sRY and k = "KStr ''Y''" and smp = ?y] c b bi
    by blast
  from 1 2 3 4 a l c m b show ?thesis by simp
qed

end
